theory Spec2Isabelle
  imports Complex_Main
begin

section \<open>String helpers of the Python standard library used by data7_code.py\<close>

text \<open>
  \<^verbatim>\<open>str.endswith\<close>: the suffix is no longer than the string and equals its tail.
\<close>

definition endswith :: "string \<Rightarrow> string \<Rightarrow> bool" where
  "endswith s suf \<longleftrightarrow>
     length suf \<le> length s \<and> drop (length s - length suf) s = suf"

text \<open>
  \<^verbatim>\<open>str.split(sep)\<close> with a one-character separator: the fields between the
  separators, empty fields kept; the empty string gives one empty field. The result is
  never empty, so the first branch of the case below is never taken.
\<close>

fun split :: "char \<Rightarrow> string \<Rightarrow> string list" where
  "split c [] = [[]]"
| "split c (x # xs) =
     (if x = c then [] # split c xs
      else (case split c xs of [] \<Rightarrow> [[x]] | w # ws \<Rightarrow> (x # w) # ws))"

text \<open>
  \<^verbatim>\<open>os.path.basename\<close> (POSIX flavour): everything after the last slash.
\<close>

definition basename :: "string \<Rightarrow> string" where
  "basename p = last (split CHR ''/'' p)"

text \<open>
  \<^verbatim>\<open>os.path.join(a, b)\<close> (POSIX flavour) for two components.
\<close>

definition path_join :: "string \<Rightarrow> string \<Rightarrow> string" where
  "path_join a b =
     (if b \<noteq> [] \<and> hd b = CHR ''/'' then b
      else if a = [] \<or> last a = CHR ''/'' then a @ b
      else a @ ''/'' @ b)"

section \<open>Date token (line 127)\<close>

text \<open>
  The exceptions the loop body can raise: the IndexError of a list index, and whatever
  the raster library raises (carried with its message).
\<close>

datatype exn = IndexError | LibraryError string

text \<open>
  \<^verbatim>\<open>filename.split('.')[1][1:]\<close>. Indexing a list of fewer than two fields raises
  IndexError; the slice \<^verbatim>\<open>[1:]\<close> never raises.
\<close>

definition date_str :: "string \<Rightarrow> exn + string" where
  "date_str filename =
     (let fields = split CHR ''.'' filename
      in if 1 < length fields then Inr (drop 1 (fields ! 1)) else Inl IndexError)"

section \<open>Pixel statistics (lines 120-123)\<close>

text \<open>
  The clipped array \<^verbatim>\<open>out_image\<close> has shape (bands, rows, columns). Pixel values are
  modelled as real numbers: rounding and the special values of floating point are not
  part of the model. Boolean-mask indexing \<^verbatim>\<open>out_image[out_image > 0]\<close> gives the
  flat sequence of the selected values in row-major order.
\<close>

type_synonym image = "real list list list"

definition valid_data :: "image \<Rightarrow> real list" where
  "valid_data out_image = filter (\<lambda>v. 0 < v) (concat (concat out_image))"

text \<open>
  \<^verbatim>\<open>np.mean\<close> and \<^verbatim>\<open>np.median\<close> of a flat array, as numpy documents them: the sum
  divided by the number of values; the middle value of a sorted copy, or the average
  of the two middle values when the number of values is even. The script calls them on
  a non-empty array only.
\<close>

definition np_mean :: "real list \<Rightarrow> real" where
  "np_mean xs = sum_list xs / real (length xs)"

definition np_median :: "real list \<Rightarrow> real" where
  "np_median xs =
     (let s = sort xs; n = length s
      in if odd n then s ! (n div 2)
         else (s ! (n div 2 - 1) + s ! (n div 2)) / 2)"

text \<open>
  The element types a raster band can have, and the type of the scalar numpy returns.
  \<^verbatim>\<open>np.mean\<close> without a \<^verbatim>\<open>dtype\<close> argument (line 122) gives float64 for integer
  input and the input's own dtype for floating-point input; \<^verbatim>\<open>np.median\<close> (line 123)
  returns the mean of the middle value or values and so follows the same rule. The
  script passes no \<^verbatim>\<open>dtype\<close> and casts nowhere.
\<close>

datatype dtype =
    UInt8 | Int8 | UInt16 | Int16 | UInt32 | Int32 | UInt64 | Int64
  | Float16 | Float32 | Float64

fun is_float :: "dtype \<Rightarrow> bool" where
  "is_float Float16 = True"
| "is_float Float32 = True"
| "is_float Float64 = True"
| "is_float _ = False"

fun bits :: "dtype \<Rightarrow> nat" where
  "bits UInt8 = 8"
| "bits Int8 = 8"
| "bits UInt16 = 16"
| "bits Int16 = 16"
| "bits Float16 = 16"
| "bits UInt32 = 32"
| "bits Int32 = 32"
| "bits Float32 = 32"
| "bits UInt64 = 64"
| "bits Int64 = 64"
| "bits Float64 = 64"

definition np_mean_dtype :: "dtype \<Rightarrow> dtype" where
  "np_mean_dtype dt = (if is_float dt then dt else Float64)"

definition np_median_dtype :: "dtype \<Rightarrow> dtype" where
  "np_median_dtype dt = (if is_float dt then dt else Float64)"

section \<open>Records, table and program state\<close>

text \<open>
  A Brightness Record is the dict literal of lines 129-134: an association list in
  insertion order. A cell of the table is a string, a number, a row index, or missing.
\<close>

datatype cell = Str string | Num real | Idx nat | NaN

type_synonym pydict = "(string \<times> cell) list"

text \<open>
  The same cells with the dtype of each number: what the dict literal holds when the
  numpy scalars are kept with their types. \<open>erase\<close> forgets the dtype.
\<close>

datatype np_cell = TStr string | TNum dtype real

fun erase :: "np_cell \<Rightarrow> cell" where
  "erase (TStr s) = Str s"
| "erase (TNum dt x) = Num x"

record dataframe =
  columns :: "string list"
  rows :: "cell list list"

text \<open>Distinct elements in order of first appearance.\<close>

fun uniq :: "'a list \<Rightarrow> 'a list" where
  "uniq [] = []"
| "uniq (x # xs) = x # uniq (filter (\<lambda>y. y \<noteq> x) xs)"

text \<open>
  \<^verbatim>\<open>pd.DataFrame(list_of_dicts)\<close>: the columns are the keys in order of first
  appearance, one row per dict, a missing key giving NaN.
\<close>

definition DataFrame :: "pydict list \<Rightarrow> dataframe" where
  "DataFrame ds =
     (let cols = uniq (concat (map (map fst) ds))
      in \<lparr>columns = cols,
          rows = map (\<lambda>d. map (\<lambda>k. case map_of d k of None \<Rightarrow> NaN | Some v \<Rightarrow> v) cols) ds\<rparr>)"

text \<open>
  \<^verbatim>\<open>df.to_csv(path, index=...)\<close>: the header line, then one line per row; with
  \<^verbatim>\<open>index=True\<close> a leading column of row numbers under an empty header. The written
  file is modelled as its lines of cells; the rendering of a cell as text is not
  modelled.
\<close>

definition to_csv :: "dataframe \<Rightarrow> bool \<Rightarrow> cell list list" where
  "to_csv df index =
     (if index
      then (Str [] # map Str (columns df)) #
           map (\<lambda>(i, r). Idx i # r) (zip [0 ..< length (rows df)] (rows df))
      else map Str (columns df) # rows df)"

text \<open>\<^verbatim>\<open>df.head()\<close>: the first five rows.\<close>

definition head :: "dataframe \<Rightarrow> dataframe" where
  "head df = df\<lparr>rows := take 5 (rows df)\<rparr>"

text \<open>The printed lines, one constructor per print statement of the script.\<close>

datatype message =
    Rule | Title
  | Step_login | Ask_credentials | Login_ok | Login_failed
  | Step_search | Found nat | No_results | First_five | Granule nat string
  | Step_download | Target string | Patience | Downloaded nat | Saved_in string
  | Step_extract
  | Processing string
  | Mean_line real
  | Failure exn
  | Saved string | Preview_header | Preview dataframe
  | No_data
  | Alternative | Gee_text | Done

text \<open>
  The state the script mutates: the list \<^verbatim>\<open>processed_data\<close>, the lines printed so far,
  and the files written so far (path and content, in order).
\<close>

record state =
  processed_data :: "pydict list"
  stdout :: "message list"
  written :: "(string \<times> cell list list) list"

definition init :: state where
  "init = \<lparr>processed_data = [], stdout = [], written = []\<rparr>"

definition prints :: "message list \<Rightarrow> state \<Rightarrow> state" where
  "prints ms st = st\<lparr>stdout := stdout st @ ms\<rparr>"

definition print :: "message \<Rightarrow> state \<Rightarrow> state" where
  "print m st = prints [m] st"

text \<open>
  The external collaborators: the login result, the granules found (each by its
  temporal extent), the downloaded paths (or the error the download raised), opening a
  sub-dataset by its address, and clipping an opened dataset to the region; and the
  element type of the array that clipping a dataset returns (the band's dtype).
\<close>

record 'ds env =
  login :: bool
  search_data :: "string list"
  download :: "exn + string list"
  rasterio_open :: "string \<Rightarrow> exn + 'ds"
  mask :: "'ds \<Rightarrow> exn + image"
  out_dtype :: "'ds \<Rightarrow> dtype"

definition OUTPUT_DIR :: string where
  "OUTPUT_DIR = ''viirs_data''"

text \<open>The sub-dataset address of line 114.\<close>

definition dataset_uri :: "string \<Rightarrow> string" where
  "dataset_uri file_path =
     ''HDF5:'' @ file_path @
     ''://HDFEOS/GRIDS/VNP_Grid_DNB/Data_Fields/DNB_BRDF-Corrected_NTL''"

section \<open>The extraction loop (lines 108-140)\<close>

definition process_file :: "'ds env \<Rightarrow> string \<Rightarrow> state \<Rightarrow> state" where
  "process_file env file_path st =
     (if endswith file_path ''.h5'' then
        let st1 = print (Processing (basename file_path)) st
        in case rasterio_open env (dataset_uri file_path) of
             Inl e \<Rightarrow> print (Failure e) st1
           | Inr src \<Rightarrow>
               (case mask env src of
                  Inl e \<Rightarrow> print (Failure e) st1
                | Inr out_image \<Rightarrow>
                    let vd = valid_data out_image
                    in if 0 < length vd then
                         let mean_brightness = np_mean vd;
                             median_brightness = np_median vd;
                             filename = basename file_path
                         in case date_str filename of
                              Inl e \<Rightarrow> print (Failure e) st1
                            | Inr d \<Rightarrow>
                                print (Mean_line mean_brightness)
                                  (st1\<lparr>processed_data := processed_data st1 @
                                     [[(''date'', Str d),
                                       (''mean_brightness'', Num mean_brightness),
                                       (''median_brightness'', Num median_brightness),
                                       (''file'', Str filename)]]\<rparr>)
                       else st1)
      else st)"

fun process_files :: "'ds env \<Rightarrow> string list \<Rightarrow> state \<Rightarrow> state" where
  "process_files env [] st = st"
| "process_files env (file_path # rest) st =
     process_files env rest (process_file env file_path st)"

section \<open>The reporter (lines 143-151) and the whole script\<close>

definition report :: "state \<Rightarrow> state" where
  "report st =
     (if processed_data st \<noteq> [] then
        let df_viirs = DataFrame (processed_data st);
            output_csv = path_join OUTPUT_DIR ''viirs_philadelphia_summary.csv'';
            st1 = st\<lparr>written := written st @ [(output_csv, to_csv df_viirs False)]\<rparr>
        in prints [Saved output_csv, Preview_header, Preview (head df_viirs)] st1
      else print No_data st)"

text \<open>
  How the script ends: \<^verbatim>\<open>exit()\<close> (lines 48 and 68), an exception nobody catches, or
  the end of the file.
\<close>

datatype outcome = SystemExit | Uncaught exn | EndOfScript

definition main :: "'ds env \<Rightarrow> state \<times> outcome" where
  "main env =
     (let st = prints [Rule, Title, Rule, Step_login, Ask_credentials] init
      in if \<not> login env then (print Login_failed st, SystemExit)
         else
           let results = search_data env;
               st = prints [Login_ok, Step_search, Found (length results)] st
           in if length results = 0 then (print No_results st, SystemExit)
              else
                let st = prints (First_five #
                           map (\<lambda>(i, granule). Granule (i + 1) granule)
                             (enumerate 0 (take 5 results))) st;
                    st = prints [Step_download, Target OUTPUT_DIR, Patience] st
                in case download env of
                     Inl e \<Rightarrow> (st, Uncaught e)
                   | Inr downloaded_files \<Rightarrow>
                       let st = prints [Downloaded (length downloaded_files),
                                        Saved_in OUTPUT_DIR, Step_extract] st;
                           st = st\<lparr>processed_data := []\<rparr>;
                           st = process_files env downloaded_files st;
                           st = report st;
                           st = prints [Rule, Alternative, Rule, Gee_text, Rule, Done, Rule] st
                       in (st, EndOfScript))"

section \<open>What one file contributes\<close>

text \<open>
  The error raised while opening or clipping a file, if any; and the records a file
  adds, read off the loop body run on the empty state.
\<close>

definition raised :: "'ds env \<Rightarrow> string \<Rightarrow> exn option" where
  "raised env file_path =
     (case rasterio_open env (dataset_uri file_path) of
        Inl e \<Rightarrow> Some e
      | Inr src \<Rightarrow> (case mask env src of Inl e \<Rightarrow> Some e | Inr _ \<Rightarrow> None))"

definition emitted :: "'ds env \<Rightarrow> string \<Rightarrow> pydict list" where
  "emitted env file_path = processed_data (process_file env file_path init)"

text \<open>
  The records a file adds, with the dtype of the two statistics: lines 109-134 once
  more, keeping for \<^verbatim>\<open>np.mean(valid_data)\<close> and \<^verbatim>\<open>np.median(valid_data)\<close> the dtype
  numpy gives them for the dtype of \<^verbatim>\<open>out_image\<close>.
\<close>

definition emitted_typed :: "'ds env \<Rightarrow> string \<Rightarrow> (string \<times> np_cell) list list" where
  "emitted_typed env file_path =
     (if endswith file_path ''.h5'' then
        case rasterio_open env (dataset_uri file_path) of
          Inl e \<Rightarrow> []
        | Inr src \<Rightarrow>
            (case mask env src of
               Inl e \<Rightarrow> []
             | Inr out_image \<Rightarrow>
                 let vd = valid_data out_image; dt = out_dtype env src
                 in if 0 < length vd then
                      let mean_brightness = TNum (np_mean_dtype dt) (np_mean vd);
                          median_brightness = TNum (np_median_dtype dt) (np_median vd);
                          filename = basename file_path
                      in case date_str filename of
                           Inl e \<Rightarrow> []
                         | Inr d \<Rightarrow>
                             [[(''date'', TStr d),
                               (''mean_brightness'', mean_brightness),
                               (''median_brightness'', median_brightness),
                               (''file'', TStr filename)]]
                    else [])
      else [])"

section \<open>A concrete batch\<close>

text \<open>
  Four downloaded paths: a granule whose clipped pixels hold the positive values
  1, 2, 3; a file whose pixels are all non-positive; a file that cannot be opened; and
  a file without the raster extension.
\<close>

definition batch :: "string list" where
  "batch = [''viirs_data/VNP46A2.A2023032.h10v04.001.h5'', ''viirs_data/B.h5'',
            ''viirs_data/C.h5'', ''viirs_data/notes.txt'']"

definition demo :: "string env" where
  "demo = \<lparr>login = True,
           search_data = [''2023-02-01''],
           download = Inr batch,
           rasterio_open = (\<lambda>uri. if uri = dataset_uri ''viirs_data/C.h5''
                                   then Inl (LibraryError ''not recognized'')
                                   else Inr uri),
           mask = (\<lambda>src. if src = dataset_uri ''viirs_data/B.h5''
                          then Inr [[[0, 0], [- 1, 0]]]
                          else Inr [[[1, 0], [3, 2]]]),
           out_dtype = (\<lambda>src. UInt16)\<rparr>"

text \<open>The same batch where nothing yields a record.\<close>

definition barren :: "string env" where
  "barren = \<lparr>login = True,
             search_data = [''2023-02-01''],
             download = Inr [''viirs_data/B.h5'', ''viirs_data/C.h5'', ''viirs_data/notes.txt''],
             rasterio_open = (\<lambda>uri. if uri = dataset_uri ''viirs_data/C.h5''
                                     then Inl (LibraryError ''not recognized'')
                                     else Inr uri),
             mask = (\<lambda>src. Inr [[[0, 0], [- 1, 0]]]),
             out_dtype = (\<lambda>src. UInt16)\<rparr>"

text \<open>
  The environment of \<open>demo\<close> with other non-positive pixels around the same positive
  values.
\<close>

definition shaded :: "string env" where
  "shaded = demo\<lparr>mask := (\<lambda>src. if src = dataset_uri ''viirs_data/B.h5''
                          then Inr [[[- 999.9, 0, 0]]]
                          else Inr [[[- 7, 1, 0], [0, 3, 2]]])\<rparr>"

text \<open>The batch of \<open>demo\<close> with bands of 32-bit floating-point pixels.\<close>

definition demo_float32 :: "string env" where
  "demo_float32 = demo\<lparr>out_dtype := (\<lambda>src. Float32)\<rparr>"

section \<open>Facts about the string helpers\<close>

lemma split_not_Nil: "split c s \<noteq> []"
  by (induction s) (auto split: list.splits)

lemma length_split: "length (split c s) = Suc (length (filter (\<lambda>x. x = c) s))"
  by (induction s) (auto split: list.splits)

lemma split_no_sep: "c \<notin> set s \<Longrightarrow> split c s = [s]"
  by (induction s) auto

lemma last_split_append:
  "c \<notin> set t \<Longrightarrow> last (split c (s @ t)) = last (split c s) @ t"
proof (induction s)
  case Nil
  then show ?case by (simp add: split_no_sep)
next
  case (Cons x xs)
  have len: "length (split c (xs @ t)) = length (split c xs)"
    using Cons.prems by (auto simp: length_split filter_empty_conv)
  show ?case
  proof (cases "x = c")
    case True
    with Cons show ?thesis by (simp add: split_not_Nil)
  next
    case False
    obtain w ws where sx: "split c xs = w # ws"
      using split_not_Nil [of c xs] by (cases "split c xs") auto
    obtain v vs where sxt: "split c (xs @ t) = v # vs"
      using split_not_Nil [of c "xs @ t"] by (cases "split c (xs @ t)") auto
    from len sx sxt have "vs = [] \<longleftrightarrow> ws = []" by auto
    with sx sxt False Cons.IH [OF Cons.prems] show ?thesis
      by (cases "ws = []") auto
  qed
qed

lemma endswith_append: "endswith s suf \<Longrightarrow> \<exists>q. s = q @ suf"
  unfolding endswith_def by (metis append_take_drop_id)

lemma basename_h5:
  assumes "endswith p ''.h5''"
  shows "\<exists>q. basename p = q @ ''.h5''"
proof -
  from endswith_append [OF assms] obtain q where p: "p = q @ ''.h5''" by blast
  have "CHR ''/'' \<notin> set ''.h5''" by simp
  from last_split_append [OF this, of q] p show ?thesis
    unfolding basename_def by blast
qed

lemma split_h5_fields:
  assumes "endswith p ''.h5''"
  shows "1 < length (split CHR ''.'' (basename p))"
proof -
  from basename_h5 [OF assms] obtain q where "basename p = q @ ''.h5''" by blast
  then show ?thesis by (simp add: length_split)
qed

lemma date_str_h5:
  assumes "endswith p ''.h5''"
  shows "date_str (basename p) = Inr (drop 1 (split CHR ''.'' (basename p) ! 1))"
  using split_h5_fields [OF assms] by (simp add: date_str_def)

section \<open>Facts about the loop body and the loop\<close>

lemma prints_fields [simp]:
  "processed_data (prints ms st) = processed_data st"
  "written (prints ms st) = written st"
  "stdout (prints ms st) = stdout st @ ms"
  by (simp_all add: prints_def)

lemma print_fields [simp]:
  "processed_data (print m st) = processed_data st"
  "written (print m st) = written st"
  "stdout (print m st) = stdout st @ [m]"
  by (simp_all add: print_def)

lemma print_print: "print b (print a st) = prints [a, b] st"
  by (simp add: print_def prints_def)

lemma sum_list_pos:
  fixes xs :: "real list"
  shows "xs \<noteq> [] \<Longrightarrow> \<forall>x\<in>set xs. 0 < x \<Longrightarrow> 0 < sum_list xs"
proof (induction xs)
  case Nil
  then show ?case by simp
next
  case (Cons x xs)
  show ?case
  proof (cases "xs = []")
    case True
    with Cons.prems show ?thesis by simp
  next
    case False
    with Cons have "0 < sum_list xs" by simp
    with Cons.prems show ?thesis by simp
  qed
qed

lemma np_mean_pos: "xs \<noteq> [] \<Longrightarrow> \<forall>x\<in>set xs. 0 < x \<Longrightarrow> 0 < np_mean xs"
  using sum_list_pos [of xs] by (simp add: np_mean_def)

lemma sort_nth_pos:
  fixes xs :: "real list"
  assumes "\<forall>x\<in>set xs. 0 < x" and "i < length xs"
  shows "0 < sort xs ! i"
proof -
  from assms(2) have "i < length (sort xs)" by simp
  then have "sort xs ! i \<in> set (sort xs)" by (rule nth_mem)
  with assms(1) show ?thesis by simp
qed

lemma np_median_pos:
  assumes "xs \<noteq> []" and "\<forall>x\<in>set xs. 0 < x"
  shows "0 < np_median xs"
proof -
  from assms(1) have n: "0 < length xs" by simp
  then have a: "0 < sort xs ! (length xs div 2)"
    using assms(2) by (intro sort_nth_pos) auto
  from n have "length xs div 2 - 1 < length xs" by arith
  with assms(2) have b: "0 < sort xs ! (length xs div 2 - 1)"
    by (intro sort_nth_pos)
  from a b show ?thesis by (simp add: np_median_def Let_def)
qed

lemma valid_data_pos: "\<forall>v\<in>set (valid_data img). 0 < v"
  by (simp add: valid_data_def)

lemma process_file_excluded: "\<not> endswith p ''.h5'' \<Longrightarrow> process_file env p st = st"
  by (simp add: process_file_def)

lemma process_file_raised:
  "endswith p ''.h5'' \<Longrightarrow> raised env p = Some e \<Longrightarrow>
   process_file env p st = prints [Processing (basename p), Failure e] st"
  by (auto simp: process_file_def raised_def print_print Let_def split: sum.splits)

lemma process_file_clipped:
  assumes "endswith p ''.h5''"
    and "rasterio_open env (dataset_uri p) = Inr src"
    and "mask env src = Inr img"
  shows "process_file env p st =
     (if valid_data img = [] then print (Processing (basename p)) st
      else print (Mean_line (np_mean (valid_data img)))
             (print (Processing (basename p)) st
               \<lparr>processed_data := processed_data st @
                  [[(''date'', Str (drop 1 (split CHR ''.'' (basename p) ! 1))),
                    (''mean_brightness'', Num (np_mean (valid_data img))),
                    (''median_brightness'', Num (np_median (valid_data img))),
                    (''file'', Str (basename p))]]\<rparr>))"
  using assms by (simp add: process_file_def Let_def date_str_h5)

lemma written_process_file [simp]: "written (process_file env p st) = written st"
  by (simp add: process_file_def Let_def split: sum.splits)

lemma processed_data_process_file:
  "processed_data (process_file env p st) = processed_data st @ emitted env p"
  by (simp add: process_file_def emitted_def init_def Let_def split: sum.splits)

lemma emitted_excluded: "\<not> endswith p ''.h5'' \<Longrightarrow> emitted env p = []"
  by (simp add: emitted_def process_file_excluded init_def)

lemma emitted_raised: "raised env p = Some e \<Longrightarrow> emitted env p = []"
  by (cases "endswith p ''.h5''")
     (simp_all add: emitted_def process_file_raised process_file_excluded init_def)

lemma emitted_shape:
  "emitted env p = [] \<or>
   (\<exists>d m md. emitted env p =
      [[(''date'', Str d), (''mean_brightness'', Num m),
        (''median_brightness'', Num md), (''file'', Str (basename p))]]
      \<and> d = drop 1 (split CHR ''.'' (basename p) ! 1) \<and> 0 < m \<and> 0 < md)"
proof (cases "endswith p ''.h5''")
  case False
  then show ?thesis by (simp add: emitted_excluded)
next
  case h5: True
  show ?thesis
  proof (cases "raised env p")
    case (Some e)
    then show ?thesis by (simp add: emitted_raised)
  next
    case None
    then obtain src img where o: "rasterio_open env (dataset_uri p) = Inr src"
      and m: "mask env src = Inr img"
      by (auto simp: raised_def split: sum.splits)
    show ?thesis
    proof (cases "valid_data img = []")
      case True
      then show ?thesis
        by (simp add: emitted_def process_file_clipped [OF h5 o m] init_def)
    next
      case False
      with valid_data_pos [of img] have "0 < np_mean (valid_data img)"
        and "0 < np_median (valid_data img)"
        by (simp_all add: np_mean_pos np_median_pos)
      with False show ?thesis
        by (simp add: emitted_def process_file_clipped [OF h5 o m] init_def)
    qed
  qed
qed

lemma process_files_append:
  "process_files env (xs @ ys) st = process_files env ys (process_files env xs st)"
  by (induction xs arbitrary: st) simp_all

lemma written_process_files [simp]: "written (process_files env fs st) = written st"
  by (induction fs arbitrary: st) simp_all

lemma processed_data_process_files:
  "processed_data (process_files env fs st) =
   processed_data st @ concat (map (emitted env) fs)"
  by (induction fs arbitrary: st) (simp_all add: processed_data_process_file)

section \<open>Facts about the reporter and the whole script\<close>

lemma stdout_process_file:
  "stdout (process_file env p st) = stdout st @ stdout (process_file env p init)"
  by (simp add: process_file_def init_def Let_def split: sum.splits)

lemma stdout_process_files:
  "stdout (process_files env fs st) =
   stdout st @ concat (map (\<lambda>p. stdout (process_file env p init)) fs)"
proof (induction fs arbitrary: st)
  case Nil
  show ?case by simp
next
  case (Cons p fs)
  show ?case by (simp add: Cons.IH stdout_process_file [of env p st])
qed

lemma processed_data_report [simp]: "processed_data (report st) = processed_data st"
  by (simp add: report_def Let_def)

lemma report_empty: "processed_data st = [] \<Longrightarrow> report st = print No_data st"
  by (simp add: report_def)

lemma written_report:
  "written (report st) =
     (if processed_data st = [] then written st
      else written st @
        [(''viirs_data/viirs_philadelphia_summary.csv'',
          to_csv (DataFrame (processed_data st)) False)])"
  by (simp add: report_def Let_def path_join_def OUTPUT_DIR_def)

lemma main_login_failed: "\<not> login env \<Longrightarrow> snd (main env) = SystemExit"
  by (simp add: main_def Let_def)

lemma main_run:
  assumes "login env" and "search_data env \<noteq> []" and "download env = Inr files"
  shows "\<exists>st0. processed_data st0 = [] \<and> written st0 = [] \<and>
           main env =
             (prints [Rule, Alternative, Rule, Gee_text, Rule, Done, Rule]
                (report (process_files env files st0)), EndOfScript)"
proof -
  let ?st0 = "(prints [Downloaded (length files), Saved_in OUTPUT_DIR, Step_extract]
      (prints [Step_download, Target OUTPUT_DIR, Patience]
        (prints (First_five # map (\<lambda>(i, granule). Granule (i + 1) granule)
                   (enumerate 0 (take 5 (search_data env))))
          (prints [Login_ok, Step_search, Found (length (search_data env))]
            (prints [Rule, Title, Rule, Step_login, Ask_credentials] init)))))
      \<lparr>processed_data := []\<rparr>"
  have "processed_data ?st0 = []" and "written ?st0 = []"
    by (simp_all add: init_def)
  moreover from assms have "main env =
      (prints [Rule, Alternative, Rule, Gee_text, Rule, Done, Rule]
         (report (process_files env files ?st0)), EndOfScript)"
    by (simp add: main_def Let_def)
  ultimately show ?thesis by blast
qed

lemma main_fields:
  assumes "login env" and "search_data env \<noteq> []" and "download env = Inr files"
  shows "snd (main env) = EndOfScript"
    and "processed_data (fst (main env)) = concat (map (emitted env) files)"
    and "written (fst (main env)) =
      (if concat (map (emitted env) files) = [] then []
       else [(''viirs_data/viirs_philadelphia_summary.csv'',
              to_csv (DataFrame (concat (map (emitted env) files))) False)])"
proof -
  from main_run [OF assms] obtain st0 where st0: "processed_data st0 = []" "written st0 = []"
    and m: "main env =
      (prints [Rule, Alternative, Rule, Gee_text, Rule, Done, Rule]
         (report (process_files env files st0)), EndOfScript)"
    by blast
  from m show "snd (main env) = EndOfScript" by simp
  from m st0 show "processed_data (fst (main env)) = concat (map (emitted env) files)"
    by (simp add: processed_data_process_files)
  from m st0 show "written (fst (main env)) =
      (if concat (map (emitted env) files) = [] then []
       else [(''viirs_data/viirs_philadelphia_summary.csv'',
              to_csv (DataFrame (concat (map (emitted env) files))) False)])"
    by (simp add: written_report processed_data_process_files)
qed

lemma main_warns:
  assumes "login env" and "search_data env \<noteq> []" and "download env = Inr files"
    and "concat (map (emitted env) files) = []"
  shows "No_data \<in> set (stdout (fst (main env)))"
proof -
  from main_run [OF assms(1-3)] obtain st0 where st0: "processed_data st0 = []"
    and m: "main env =
      (prints [Rule, Alternative, Rule, Gee_text, Rule, Done, Rule]
         (report (process_files env files st0)), EndOfScript)"
    by blast
  from st0 assms(4) have "processed_data (process_files env files st0) = []"
    by (simp add: processed_data_process_files)
  then have "report (process_files env files st0) = print No_data (process_files env files st0)"
    by (rule report_empty)
  with m show ?thesis by simp
qed

lemma main_prints_loop:
  assumes "login env" and "search_data env \<noteq> []" and "download env = Inr files"
    and "p \<in> set files"
  shows "set (stdout (process_file env p init)) \<subseteq> set (stdout (fst (main env)))"
proof -
  from main_run [OF assms(1-3)] obtain st0 where
    m: "main env =
      (prints [Rule, Alternative, Rule, Gee_text, Rule, Done, Rule]
         (report (process_files env files st0)), EndOfScript)"
    by blast
  have "set (stdout (process_files env files st0)) \<subseteq> set (stdout (report (process_files env files st0)))"
    by (auto simp: report_def Let_def print_def)
  moreover from assms(4) have "set (stdout (process_file env p init)) \<subseteq> set (stdout (process_files env files st0))"
    by (auto simp: stdout_process_files)
  ultimately show ?thesis using m by auto
qed


lemma uniq_same_keys:
  "distinct ks \<Longrightarrow> set ys \<subseteq> set ks \<Longrightarrow> uniq (ks @ ys) = ks"
proof (induction ks arbitrary: ys)
  case Nil
  then show ?case by simp
next
  case (Cons k ks)
  from Cons.prems have "filter (\<lambda>y. y \<noteq> k) ks = ks"
    by (auto simp: filter_id_conv)
  moreover from Cons.prems have "set (filter (\<lambda>y. y \<noteq> k) ys) \<subseteq> set ks" by auto
  moreover from Cons.prems have "distinct ks" by simp
  ultimately show ?case using Cons.IH [of "filter (\<lambda>y. y \<noteq> k) ys"] by simp
qed

lemma lookup_own_keys:
  "distinct (map fst d) \<Longrightarrow>
   map (\<lambda>k. case map_of d k of None \<Rightarrow> NaN | Some v \<Rightarrow> v) (map fst d) = map snd d"
proof (induction d)
  case Nil
  show ?case by simp
next
  case (Cons kv d)
  then have "map (\<lambda>k. case map_of (kv # d) k of None \<Rightarrow> NaN | Some v \<Rightarrow> v) (map fst d)
     = map (\<lambda>k. case map_of d k of None \<Rightarrow> NaN | Some v \<Rightarrow> v) (map fst d)"
    by (cases kv) auto
  with Cons show ?case by (cases kv) simp
qed

lemma DataFrame_uniform:
  assumes "ds \<noteq> []" and "\<forall>d\<in>set ds. map fst d = ks" and "distinct ks"
  shows "DataFrame ds = \<lparr>columns = ks, rows = map (map snd) ds\<rparr>"
proof -
  from assms(1) obtain d ds' where ds: "ds = d # ds'" by (cases ds) auto
  with assms(2) have "concat (map (map fst) ds) = ks @ concat (map (map fst) ds')"
    by simp
  moreover from assms(2) ds have "set (concat (map (map fst) ds')) \<subseteq> set ks" by auto
  ultimately have cols: "uniq (concat (map (map fst) ds)) = ks"
    using uniq_same_keys [OF assms(3)] by simp
  have "map (\<lambda>d. map (\<lambda>k. case map_of d k of None \<Rightarrow> NaN | Some v \<Rightarrow> v) ks) ds
      = map (map snd) ds"
  proof (rule map_cong [OF refl])
    fix d assume "d \<in> set ds"
    with assms(2) have "map fst d = ks" by simp
    with assms(3) lookup_own_keys [of d]
    show "map (\<lambda>k. case map_of d k of None \<Rightarrow> NaN | Some v \<Rightarrow> v) ks = map snd d"
      by simp
  qed
  with cols show ?thesis by (simp add: DataFrame_def Let_def)
qed

lemma emitted_keys:
  "d \<in> set (emitted env p) \<Longrightarrow>
   map fst d = [''date'', ''mean_brightness'', ''median_brightness'', ''file'']"
  using emitted_shape [of env p] by auto

lemma emitted_row_length: "d \<in> set (emitted env p) \<Longrightarrow> length (map snd d) = 4"
  using emitted_shape [of env p] by auto

lemma emitted_file_column:
  "map (\<lambda>row. row ! 3) (map (map snd) (concat (map (emitted env) files))) =
   map (\<lambda>p. Str (basename p)) (filter (\<lambda>p. emitted env p \<noteq> []) files)"
proof (induction files)
  case Nil
  show ?case by simp
next
  case (Cons p files)
  from emitted_shape [of env p] Cons show ?case by auto
qed

lemma emitted_positive:
  "d \<in> set (emitted env p) \<Longrightarrow>
   \<exists>m md. map_of d ''mean_brightness'' = Some (Num m) \<and> 0 < m \<and>
           map_of d ''median_brightness'' = Some (Num md) \<and> 0 < md"
  using emitted_shape [of env p] by auto

lemma main_records:
  "set (processed_data (fst (main env))) \<subseteq> (\<Union>p. set (emitted env p))"
proof (cases "login env \<and> search_data env \<noteq> []")
  case False
  then show ?thesis by (auto simp: main_def Let_def init_def)
next
  case True
  show ?thesis
  proof (cases "download env")
    case (Inl e)
    with True show ?thesis by (simp add: main_def Let_def init_def)
  next
    case (Inr files)
    with True main_fields(2) [of env files] show ?thesis by auto
  qed
qed

section \<open>Facts about the dtypes of the statistics\<close>

lemma np_result_is_float [simp]:
  "is_float (np_mean_dtype dt)" "is_float (np_median_dtype dt)"
  by (simp_all add: np_mean_dtype_def np_median_dtype_def)

lemma np_result_bits:
  "bits (np_mean_dtype dt) = (if is_float dt then bits dt else 64)"
  "bits (np_median_dtype dt) = (if is_float dt then bits dt else 64)"
  by (simp_all add: np_mean_dtype_def np_median_dtype_def)

lemma erase_emitted_typed:
  "map (map (\<lambda>(k, c). (k, erase c))) (emitted_typed env p) = emitted env p"
  by (simp add: emitted_typed_def emitted_def process_file_def init_def Let_def
      split: sum.splits)

lemma emitted_typed_shape:
  assumes "rasterio_open env (dataset_uri p) = Inr src"
  shows "emitted_typed env p = [] \<or>
     (\<exists>d m md. emitted_typed env p =
        [[(''date'', TStr d),
          (''mean_brightness'', TNum (np_mean_dtype (out_dtype env src)) m),
          (''median_brightness'', TNum (np_median_dtype (out_dtype env src)) md),
          (''file'', TStr (basename p))]])"
  using assms by (simp add: emitted_typed_def Let_def split: sum.splits)

lemma emitted_typed_cells:
  assumes "rasterio_open env (dataset_uri p) = Inr src"
    and "d \<in> set (emitted_typed env p)"
  shows "\<exists>m md. map_of d ''mean_brightness'' = Some (TNum (np_mean_dtype (out_dtype env src)) m)
       \<and> map_of d ''median_brightness'' = Some (TNum (np_median_dtype (out_dtype env src)) md)"
  using emitted_typed_shape [OF assms(1)] assms(2) by auto

section \<open>The concrete batch, evaluated\<close>

lemma emitted_demo_granule:
  "emitted demo ''viirs_data/VNP46A2.A2023032.h10v04.001.h5'' =
     [[(''date'', Str ''2023032''), (''mean_brightness'', Num 2),
       (''median_brightness'', Num 2), (''file'', Str ''VNP46A2.A2023032.h10v04.001.h5'')]]"
  by (simp add: emitted_def process_file_def demo_def endswith_def basename_def
      dataset_uri_def valid_data_def np_mean_def np_median_def date_str_def init_def
      print_def prints_def Let_def)

lemma demo_basics:
  "login demo" "search_data demo \<noteq> []" "download demo = Inr batch"
  by (simp_all add: demo_def)

lemma raised_demo_C:
  "raised demo ''viirs_data/C.h5'' = Some (LibraryError ''not recognized'')"
  by (simp add: raised_def demo_def)

lemma emitted_demo_rest:
  "emitted demo ''viirs_data/B.h5'' = []"
  "emitted demo ''viirs_data/C.h5'' = []"
  "emitted demo ''viirs_data/notes.txt'' = []"
proof -
  have "endswith ''viirs_data/B.h5'' ''.h5''" by (simp add: endswith_def)
  moreover have "rasterio_open demo (dataset_uri ''viirs_data/B.h5'') =
      Inr (dataset_uri ''viirs_data/B.h5'')"
    by (simp add: demo_def dataset_uri_def)
  moreover have "mask demo (dataset_uri ''viirs_data/B.h5'') = Inr [[[0, 0], [- 1, 0]]]"
    by (simp add: demo_def)
  ultimately show "emitted demo ''viirs_data/B.h5'' = []"
    by (simp add: emitted_def process_file_clipped valid_data_def init_def)
  show "emitted demo ''viirs_data/C.h5'' = []"
    by (rule emitted_raised [OF raised_demo_C])
  show "emitted demo ''viirs_data/notes.txt'' = []"
    by (rule emitted_excluded) (simp add: endswith_def)
qed

lemma records_demo:
  "concat (map (emitted demo) batch) =
     [[(''date'', Str ''2023032''), (''mean_brightness'', Num 2),
       (''median_brightness'', Num 2), (''file'', Str ''VNP46A2.A2023032.h10v04.001.h5'')]]"
  by (simp add: batch_def emitted_demo_granule emitted_demo_rest)

lemma barren_basics:
  "login barren" "search_data barren \<noteq> []"
  "download barren = Inr [''viirs_data/B.h5'', ''viirs_data/C.h5'', ''viirs_data/notes.txt'']"
  by (simp_all add: barren_def)

lemma barren_files:
  "valid_data [[[0, 0], [- 1, 0]]] = []"
  "endswith ''viirs_data/B.h5'' ''.h5''"
  "raised barren ''viirs_data/C.h5'' = Some (LibraryError ''not recognized'')"
  "\<not> endswith ''viirs_data/notes.txt'' ''.h5''"
  by (simp_all add: valid_data_def endswith_def raised_def barren_def)

lemma emitted_barren_B: "emitted barren ''viirs_data/B.h5'' = []"
proof -
  have "rasterio_open barren (dataset_uri ''viirs_data/B.h5'') =
      Inr (dataset_uri ''viirs_data/B.h5'')"
    by (simp add: barren_def dataset_uri_def)
  moreover have "mask barren (dataset_uri ''viirs_data/B.h5'') = Inr [[[0, 0], [- 1, 0]]]"
    by (simp add: barren_def)
  ultimately show ?thesis
    by (simp add: emitted_def process_file_clipped barren_files init_def)
qed

lemma open_demo:
  "rasterio_open demo (dataset_uri p) = Inr (dataset_uri p) \<longleftrightarrow> p \<noteq> ''viirs_data/C.h5''"
  "rasterio_open shaded (dataset_uri p) = Inr (dataset_uri p) \<longleftrightarrow> p \<noteq> ''viirs_data/C.h5''"
  by (simp_all add: demo_def shaded_def dataset_uri_def)

lemma mask_demo:
  "mask demo (dataset_uri p) =
     (if p = ''viirs_data/B.h5'' then Inr [[[0, 0], [- 1, 0]]] else Inr [[[1, 0], [3, 2]]])"
  "mask shaded (dataset_uri p) =
     (if p = ''viirs_data/B.h5'' then Inr [[[- 999.9, 0, 0]]] else Inr [[[- 7, 1, 0], [0, 3, 2]]])"
  by (simp_all add: demo_def shaded_def dataset_uri_def)

lemma emitted_typed_granule:
  "emitted_typed demo ''viirs_data/VNP46A2.A2023032.h10v04.001.h5'' =
     [[(''date'', TStr ''2023032''), (''mean_brightness'', TNum Float64 2),
       (''median_brightness'', TNum Float64 2),
       (''file'', TStr ''VNP46A2.A2023032.h10v04.001.h5'')]]"
  "emitted_typed demo_float32 ''viirs_data/VNP46A2.A2023032.h10v04.001.h5'' =
     [[(''date'', TStr ''2023032''), (''mean_brightness'', TNum Float32 2),
       (''median_brightness'', TNum Float32 2),
       (''file'', TStr ''VNP46A2.A2023032.h10v04.001.h5'')]]"
  by (simp_all add: emitted_typed_def demo_float32_def demo_def endswith_def basename_def
      dataset_uri_def valid_data_def np_mean_def np_median_def date_str_def
      np_mean_dtype_def np_median_dtype_def Let_def)

section \<open>Claims\<close>

text \<open>
  C1. For a file ending in .h5 that opens and clips, the record added carries the mean
  and the median of the strictly positive pixels of the clipped array and of nothing
  else: two clipped arrays with the same positive values give the same state, whatever
  their other values; and when no pixel is strictly positive no record is added.
\<close>

theorem statistics_over_positive_pixels:
  assumes "endswith p ''.h5''"
    and "rasterio_open env (dataset_uri p) = Inr src" and "mask env src = Inr img"
    and "rasterio_open env' (dataset_uri p) = Inr src'" and "mask env' src' = Inr img'"
    and "filter (\<lambda>v. 0 < v) (concat (concat img')) = filter (\<lambda>v. 0 < v) (concat (concat img))"
  shows "processed_data (process_file env p st) =
       processed_data st @
       (if filter (\<lambda>v. 0 < v) (concat (concat img)) = [] then []
        else [[(''date'', Str (drop 1 (split CHR ''.'' (basename p) ! 1))),
               (''mean_brightness'', Num (np_mean (filter (\<lambda>v. 0 < v) (concat (concat img))))),
               (''median_brightness'', Num (np_median (filter (\<lambda>v. 0 < v) (concat (concat img))))),
               (''file'', Str (basename p))]])
     \<and> process_file env' p st = process_file env p st"
proof -
  from assms(6) have same: "valid_data img' = valid_data img" by (simp add: valid_data_def)
  have a: "processed_data (process_file env p st) =
       processed_data st @
       (if filter (\<lambda>v. 0 < v) (concat (concat img)) = [] then []
        else [[(''date'', Str (drop 1 (split CHR ''.'' (basename p) ! 1))),
               (''mean_brightness'', Num (np_mean (filter (\<lambda>v. 0 < v) (concat (concat img))))),
               (''median_brightness'', Num (np_median (filter (\<lambda>v. 0 < v) (concat (concat img))))),
               (''file'', Str (basename p))]])"
    by (simp add: process_file_clipped [OF assms(1-3)] valid_data_def)
  have b: "process_file env' p st = process_file env p st"
    by (simp add: process_file_clipped [OF assms(1,2,3)]
        process_file_clipped [OF assms(1,4,5)] same)
  from a b show ?thesis by blast
qed

theorem statistics_over_positive_pixels_witness:
  "processed_data (process_file demo ''viirs_data/VNP46A2.A2023032.h10v04.001.h5'' init) =
     [[(''date'', Str ''2023032''), (''mean_brightness'', Num 2),
       (''median_brightness'', Num 2), (''file'', Str ''VNP46A2.A2023032.h10v04.001.h5'')]]
   \<and> process_file shaded ''viirs_data/VNP46A2.A2023032.h10v04.001.h5'' init =
       process_file demo ''viirs_data/VNP46A2.A2023032.h10v04.001.h5'' init
   \<and> processed_data (process_file demo ''viirs_data/B.h5'' init) = []
   \<and> process_file shaded ''viirs_data/B.h5'' init = process_file demo ''viirs_data/B.h5'' init"
proof -
  let ?A = "''viirs_data/VNP46A2.A2023032.h10v04.001.h5''"
  let ?B = "''viirs_data/B.h5''"
  have hA: "endswith ?A ''.h5''" and hB: "endswith ?B ''.h5''"
    by (simp_all add: endswith_def)
  have oA: "rasterio_open demo (dataset_uri ?A) = Inr (dataset_uri ?A)"
    and oA': "rasterio_open shaded (dataset_uri ?A) = Inr (dataset_uri ?A)"
    and oB: "rasterio_open demo (dataset_uri ?B) = Inr (dataset_uri ?B)"
    and oB': "rasterio_open shaded (dataset_uri ?B) = Inr (dataset_uri ?B)"
    by (simp_all add: open_demo)
  have mA: "mask demo (dataset_uri ?A) = Inr [[[1, 0], [3, 2]]]"
    and mA': "mask shaded (dataset_uri ?A) = Inr [[[- 7, 1, 0], [0, 3, 2]]]"
    and mB: "mask demo (dataset_uri ?B) = Inr [[[0, 0], [- 1, 0]]]"
    and mB': "mask shaded (dataset_uri ?B) = Inr [[[- 999.9, 0, 0]]]"
    by (simp_all add: mask_demo)
  have fA: "filter (\<lambda>v. 0 < v) (concat (concat [[[- 7, 1, 0], [0, 3, 2 :: real]]])) =
      filter (\<lambda>v. 0 < v) (concat (concat [[[1, 0], [3, 2]]]))"
    and fB: "filter (\<lambda>v. 0 < v) (concat (concat [[[- 999.9, 0, 0 :: real]]])) =
      filter (\<lambda>v. 0 < v) (concat (concat [[[0, 0], [- 1, 0]]]))"
    by simp_all
  from statistics_over_positive_pixels [OF hA oA mA oA' mA' fA, of init]
    statistics_over_positive_pixels [OF hB oB mB oB' mB' fB, of init]
  show ?thesis
    by (simp add: init_def np_mean_def np_median_def basename_def)
qed

text \<open>
  C2. The date token is a function of the file name alone: the name is split on the
  dot, the field at index 1 is taken and its first character dropped. For
  VNP46A2.A2023032.h10v04.001.h5 the token is 2023032, and the date of every record a
  file adds is the token of its base name.
\<close>

theorem date_token_extraction:
  "date_str ''VNP46A2.A2023032.h10v04.001.h5'' = Inr ''2023032''
   \<and> date_str filename =
       (if 1 < length (split CHR ''.'' filename)
        then Inr (drop 1 (split CHR ''.'' filename ! 1)) else Inl IndexError)
   \<and> (\<forall>d\<in>set (emitted env p).
         map_of d ''date'' = Some (Str (drop 1 (split CHR ''.'' (basename p) ! 1))))"
proof -
  have "date_str ''VNP46A2.A2023032.h10v04.001.h5'' = Inr ''2023032''"
    by (simp add: date_str_def)
  moreover have "date_str filename =
       (if 1 < length (split CHR ''.'' filename)
        then Inr (drop 1 (split CHR ''.'' filename ! 1)) else Inl IndexError)"
    by (simp add: date_str_def Let_def)
  moreover have "\<forall>d\<in>set (emitted env p).
         map_of d ''date'' = Some (Str (drop 1 (split CHR ''.'' (basename p) ! 1)))"
    using emitted_shape [of env p] by auto
  ultimately show ?thesis by blast
qed

theorem date_token_extraction_witness:
  "emitted demo ''viirs_data/VNP46A2.A2023032.h10v04.001.h5'' \<noteq> []
   \<and> map_of (hd (emitted demo ''viirs_data/VNP46A2.A2023032.h10v04.001.h5'')) ''date'' =
       Some (Str ''2023032'')"
  using date_token_extraction [of "''A.h5''" demo "''viirs_data/VNP46A2.A2023032.h10v04.001.h5''"]
  by (simp add: emitted_demo_granule basename_def)

text \<open>
  C3. When opening or clipping a file ending in .h5 raises an error, the loop body
  prints the processing line and the diagnostic and changes nothing else: no record is
  added, the records of the earlier files stay as they were, the remaining files are
  processed, and the script runs to its end.
\<close>

theorem per_file_errors_isolated:
  assumes "login env" and "search_data env \<noteq> []"
    and "download env = Inr (pre @ p # post)"
    and "endswith p ''.h5''" and "raised env p = Some e"
  shows "process_file env p st = prints [Processing (basename p), Failure e] st
     \<and> processed_data (process_file env p st) = processed_data st
     \<and> process_files env (pre @ p # post) st =
         process_files env post
           (prints [Processing (basename p), Failure e] (process_files env pre st))
     \<and> processed_data (process_files env (pre @ [p]) st) =
         processed_data (process_files env pre st)
     \<and> processed_data (fst (main env)) =
         concat (map (emitted env) pre) @ concat (map (emitted env) post)
     \<and> Failure e \<in> set (stdout (fst (main env)))
     \<and> snd (main env) = EndOfScript"
proof -
  note pf = process_file_raised [OF assms(4,5)]
  have a: "process_file env p st = prints [Processing (basename p), Failure e] st"
    by (rule pf)
  have b: "processed_data (process_file env p st) = processed_data st"
    by (simp add: pf)
  have c: "process_files env (pre @ p # post) st =
         process_files env post
           (prints [Processing (basename p), Failure e] (process_files env pre st))"
    by (simp add: process_files_append pf)
  have d: "processed_data (process_files env (pre @ [p]) st) =
         processed_data (process_files env pre st)"
    by (simp add: process_files_append pf)
  have f: "processed_data (fst (main env)) =
         concat (map (emitted env) pre) @ concat (map (emitted env) post)"
    by (simp add: main_fields(2) [OF assms(1-3)] emitted_raised [OF assms(5)])
  have "Failure e \<in> set (stdout (process_file env p init))"
    by (simp add: pf)
  with main_prints_loop [OF assms(1-3), of p] have g: "Failure e \<in> set (stdout (fst (main env)))"
    by auto
  from a b c d f g main_fields(1) [OF assms(1-3)] show ?thesis by blast
qed

theorem per_file_errors_isolated_witness:
  "endswith ''viirs_data/C.h5'' ''.h5''
   \<and> raised demo ''viirs_data/C.h5'' = Some (LibraryError ''not recognized'')
   \<and> process_file demo ''viirs_data/C.h5'' init =
       prints [Processing ''C.h5'', Failure (LibraryError ''not recognized'')] init
   \<and> snd (main demo) = EndOfScript"
proof -
  have h: "endswith ''viirs_data/C.h5'' ''.h5''" by (simp add: endswith_def)
  have d: "download demo = Inr ([''viirs_data/VNP46A2.A2023032.h10v04.001.h5'', ''viirs_data/B.h5'']
             @ ''viirs_data/C.h5'' # [''viirs_data/notes.txt''])"
    by (simp add: demo_def batch_def)
  from per_file_errors_isolated [OF demo_basics(1,2) d h raised_demo_C, of init] h raised_demo_C
  show ?thesis by (simp add: basename_def)
qed

text \<open>
  C4. When no file of the batch adds a record (the list is empty, or every file is
  excluded by its extension, fails, or has no positive pixel), the script writes no
  file, prints the warning and runs to its end.
\<close>

theorem no_records_no_summary:
  assumes "login env" and "search_data env \<noteq> []" and "download env = Inr files"
    and "\<forall>p\<in>set files. \<not> endswith p ''.h5'' \<or> raised env p \<noteq> None \<or> emitted env p = []"
  shows "processed_data (fst (main env)) = []
     \<and> written (fst (main env)) = []
     \<and> No_data \<in> set (stdout (fst (main env)))
     \<and> snd (main env) = EndOfScript"
proof -
  have "\<forall>p\<in>set files. emitted env p = []"
  proof
    fix p assume "p \<in> set files"
    with assms(4) show "emitted env p = []"
      by (auto simp: emitted_excluded emitted_raised)
  qed
  then have none: "concat (map (emitted env) files) = []" by simp
  from main_fields [OF assms(1-3)] none main_warns [OF assms(1-3) none]
  show ?thesis by simp
qed

theorem no_records_no_summary_witness:
  "processed_data (fst (main barren)) = []
   \<and> written (fst (main barren)) = []
   \<and> No_data \<in> set (stdout (fst (main barren)))
   \<and> snd (main barren) = EndOfScript
   \<and> written (fst (main (barren\<lparr>download := Inr []\<rparr>))) = []
   \<and> No_data \<in> set (stdout (fst (main (barren\<lparr>download := Inr []\<rparr>))))"
proof -
  have h: "\<forall>p\<in>set [''viirs_data/B.h5'', ''viirs_data/C.h5'', ''viirs_data/notes.txt''].
      \<not> endswith p ''.h5'' \<or> raised barren p \<noteq> None \<or> emitted barren p = []"
    by (simp add: barren_files emitted_barren_B)
  have e: "login (barren\<lparr>download := Inr []\<rparr>)"
    "search_data (barren\<lparr>download := Inr []\<rparr>) \<noteq> []"
    "download (barren\<lparr>download := Inr []\<rparr>) = Inr []"
    by (simp_all add: barren_def)
  from no_records_no_summary [OF barren_basics h]
    no_records_no_summary [OF e, simplified]
  show ?thesis by simp
qed

text \<open>
  C5. When the batch adds at least one record, the script writes exactly one file,
  viirs_philadelphia_summary.csv in the output directory: the header date,
  mean_brightness, median_brightness, file, then one line of four cells per record, in
  the order the files were processed, with no column of row numbers.
\<close>

theorem summary_table_layout:
  assumes "login env" and "search_data env \<noteq> []" and "download env = Inr files"
    and "concat (map (emitted env) files) \<noteq> []"
  shows "written (fst (main env)) =
       [(''viirs_data/viirs_philadelphia_summary.csv'',
         [Str ''date'', Str ''mean_brightness'', Str ''median_brightness'', Str ''file''] #
         map (map snd) (concat (map (emitted env) files)))]
     \<and> list_all (\<lambda>row. length row = 4) (map (map snd) (concat (map (emitted env) files)))
     \<and> map (\<lambda>row. row ! 3) (map (map snd) (concat (map (emitted env) files))) =
         map (\<lambda>p. Str (basename p)) (filter (\<lambda>p. emitted env p \<noteq> []) files)"
proof -
  let ?ds = "concat (map (emitted env) files)"
  have keys: "\<forall>d\<in>set ?ds. map fst d = [''date'', ''mean_brightness'', ''median_brightness'', ''file'']"
    by (auto dest: emitted_keys)
  have "distinct [''date'', ''mean_brightness'', ''median_brightness'', ''file'']" by simp
  from DataFrame_uniform [OF assms(4) keys this]
  have "to_csv (DataFrame ?ds) False =
     [Str ''date'', Str ''mean_brightness'', Str ''median_brightness'', Str ''file''] #
         map (map snd) ?ds"
    by (simp add: to_csv_def)
  with assms(4) main_fields(3) [OF assms(1-3)]
  have a: "written (fst (main env)) =
       [(''viirs_data/viirs_philadelphia_summary.csv'',
         [Str ''date'', Str ''mean_brightness'', Str ''median_brightness'', Str ''file''] #
         map (map snd) ?ds)]"
    by simp
  have b: "list_all (\<lambda>row. length row = 4) (map (map snd) ?ds)"
    using emitted_row_length [of _ env] by (auto simp: list_all_iff)
  from a b emitted_file_column [of env files] show ?thesis by blast
qed

theorem summary_table_layout_witness:
  "written (fst (main demo)) =
     [(''viirs_data/viirs_philadelphia_summary.csv'',
       [[Str ''date'', Str ''mean_brightness'', Str ''median_brightness'', Str ''file''],
        [Str ''2023032'', Num 2, Num 2, Str ''VNP46A2.A2023032.h10v04.001.h5'']])]"
proof -
  have "concat (map (emitted demo) batch) \<noteq> []" by (simp add: records_demo)
  from summary_table_layout [OF demo_basics this] show ?thesis
    by (simp add: records_demo)
qed

text \<open>
  C6. A path that does not end in .h5 leaves the state as it is: no record, no printed
  line, no error; the batch runs as if the path were not in the list.
\<close>

theorem non_h5_silently_excluded:
  assumes "\<not> endswith p ''.h5''"
  shows "process_file env p st = st
     \<and> emitted env p = []
     \<and> process_files env (pre @ p # post) st = process_files env (pre @ post) st"
  using assms
  by (simp add: process_file_excluded emitted_excluded process_files_append)

theorem non_h5_silently_excluded_witness:
  "\<not> endswith ''viirs_data/notes.txt'' ''.h5''
   \<and> process_file demo ''viirs_data/notes.txt'' init = init
   \<and> process_files demo [''viirs_data/B.h5'', ''viirs_data/notes.txt''] init =
       process_files demo [''viirs_data/B.h5''] init"
proof -
  have h: "\<not> endswith ''viirs_data/notes.txt'' ''.h5''" by (simp add: endswith_def)
  from non_h5_silently_excluded [OF h, of demo init "[''viirs_data/B.h5'']" "[]"] h
  show ?thesis by simp
qed

text \<open>
  C7, as amended. For every file whose strictly positive pixels are not empty, the mean
  and the median in the record are floating-point values of the dtype numpy gives by
  default: 64-bit when the band's pixels are integers or 64-bit floats, and of the
  band's own width when its pixels are narrower floats. The typed records are those the
  loop body adds, with the dtypes kept.
\<close>

theorem statistics_dtype_follows_band:
  assumes "rasterio_open env (dataset_uri p) = Inr src"
  shows "map (map (\<lambda>(k, c). (k, erase c))) (emitted_typed env p) = emitted env p
     \<and> (\<forall>d\<in>set (emitted_typed env p).
          \<exists>dt m md.
            map_of d ''mean_brightness'' = Some (TNum dt m)
            \<and> map_of d ''median_brightness'' = Some (TNum dt md)
            \<and> is_float dt
            \<and> dt = (if is_float (out_dtype env src) then out_dtype env src else Float64)
            \<and> bits dt = (if is_float (out_dtype env src) then bits (out_dtype env src) else 64))"
proof -
  have "\<forall>d\<in>set (emitted_typed env p).
          \<exists>dt m md.
            map_of d ''mean_brightness'' = Some (TNum dt m)
            \<and> map_of d ''median_brightness'' = Some (TNum dt md)
            \<and> is_float dt
            \<and> dt = (if is_float (out_dtype env src) then out_dtype env src else Float64)
            \<and> bits dt = (if is_float (out_dtype env src) then bits (out_dtype env src) else 64)"
  proof
    fix d assume "d \<in> set (emitted_typed env p)"
    from emitted_typed_cells [OF assms this] obtain m md where
      "map_of d ''mean_brightness'' = Some (TNum (np_mean_dtype (out_dtype env src)) m)"
      "map_of d ''median_brightness'' = Some (TNum (np_median_dtype (out_dtype env src)) md)"
      by blast
    then show "\<exists>dt m md.
            map_of d ''mean_brightness'' = Some (TNum dt m)
            \<and> map_of d ''median_brightness'' = Some (TNum dt md)
            \<and> is_float dt
            \<and> dt = (if is_float (out_dtype env src) then out_dtype env src else Float64)
            \<and> bits dt = (if is_float (out_dtype env src) then bits (out_dtype env src) else 64)"
      by (simp add: np_mean_dtype_def np_median_dtype_def)
  qed
  with erase_emitted_typed [of env p] show ?thesis by blast
qed

theorem statistics_dtype_follows_band_witness:
  "out_dtype demo (dataset_uri ''viirs_data/VNP46A2.A2023032.h10v04.001.h5'') = UInt16
   \<and> map_of (hd (emitted_typed demo ''viirs_data/VNP46A2.A2023032.h10v04.001.h5''))
       ''mean_brightness'' = Some (TNum Float64 2)
   \<and> map_of (hd (emitted_typed demo ''viirs_data/VNP46A2.A2023032.h10v04.001.h5''))
       ''median_brightness'' = Some (TNum Float64 2)
   \<and> map (map (\<lambda>(k, c). (k, erase c)))
       (emitted_typed demo ''viirs_data/VNP46A2.A2023032.h10v04.001.h5'') =
       emitted demo ''viirs_data/VNP46A2.A2023032.h10v04.001.h5''
   \<and> out_dtype demo_float32 (dataset_uri ''viirs_data/VNP46A2.A2023032.h10v04.001.h5'') = Float32
   \<and> map_of (hd (emitted_typed demo_float32 ''viirs_data/VNP46A2.A2023032.h10v04.001.h5''))
       ''mean_brightness'' = Some (TNum Float32 2)
   \<and> map_of (hd (emitted_typed demo_float32 ''viirs_data/VNP46A2.A2023032.h10v04.001.h5''))
       ''median_brightness'' = Some (TNum Float32 2)"
proof -
  let ?A = "''viirs_data/VNP46A2.A2023032.h10v04.001.h5''"
  have o: "rasterio_open demo (dataset_uri ?A) = Inr (dataset_uri ?A)"
    by (simp add: open_demo)
  then have o': "rasterio_open demo_float32 (dataset_uri ?A) = Inr (dataset_uri ?A)"
    by (simp add: demo_float32_def)
  have t: "out_dtype demo (dataset_uri ?A) = UInt16"
    by (simp add: demo_def)
  have t': "out_dtype demo_float32 (dataset_uri ?A) = Float32"
    by (simp add: demo_float32_def)
  from statistics_dtype_follows_band [OF o] statistics_dtype_follows_band [OF o'] t t'
  show ?thesis by (simp add: emitted_typed_granule)
qed

text \<open>
  C7 as the spec states it fails: for a band of 32-bit floats the record holds 32-bit
  values.
\<close>

theorem float32_band_counterexample:
  "out_dtype demo_float32 (dataset_uri ''viirs_data/VNP46A2.A2023032.h10v04.001.h5'') = Float32
   \<and> emitted_typed demo_float32 ''viirs_data/VNP46A2.A2023032.h10v04.001.h5'' =
       [[(''date'', TStr ''2023032''), (''mean_brightness'', TNum Float32 2),
         (''median_brightness'', TNum Float32 2),
         (''file'', TStr ''VNP46A2.A2023032.h10v04.001.h5'')]]
   \<and> bits Float32 = 32
   \<and> TNum Float32 2 \<noteq> TNum Float64 2"
proof -
  have "out_dtype demo_float32 (dataset_uri ''viirs_data/VNP46A2.A2023032.h10v04.001.h5'') = Float32"
    by (simp add: demo_float32_def)
  with emitted_typed_granule(2) show ?thesis by simp
qed

text \<open>
  C9. Every record the script holds at its end has a mean and a median strictly greater
  than zero (over the real numbers: both are taken over a non-empty sequence of
  strictly positive values).
\<close>

theorem emitted_statistics_positive:
  "\<forall>d\<in>set (processed_data (fst (main env))).
     \<exists>m md. map_of d ''mean_brightness'' = Some (Num m) \<and> 0 < m \<and>
             map_of d ''median_brightness'' = Some (Num md) \<and> 0 < md"
proof
  fix d assume "d \<in> set (processed_data (fst (main env)))"
  with main_records [of env] obtain p where "d \<in> set (emitted env p)" by blast
  then show "\<exists>m md. map_of d ''mean_brightness'' = Some (Num m) \<and> 0 < m \<and>
             map_of d ''median_brightness'' = Some (Num md) \<and> 0 < md"
    by (rule emitted_positive)
qed

theorem emitted_statistics_positive_witness:
  "processed_data (fst (main demo)) =
     [[(''date'', Str ''2023032''), (''mean_brightness'', Num 2),
       (''median_brightness'', Num 2), (''file'', Str ''VNP46A2.A2023032.h10v04.001.h5'')]]
   \<and> (\<exists>m md. map_of (hd (processed_data (fst (main demo)))) ''mean_brightness'' = Some (Num m)
          \<and> 0 < m
          \<and> map_of (hd (processed_data (fst (main demo)))) ''median_brightness'' = Some (Num md)
          \<and> 0 < md)"
  using emitted_statistics_positive [of demo]
  by (simp add: main_fields(2) [OF demo_basics] records_demo)

text \<open>
  C10. For every path ending in .h5 the base name splits on the dot into at least two
  fields, so the token is defined and no IndexError is raised; for A.h5 the token is 5.
\<close>

theorem h5_path_has_date_field:
  assumes "endswith p ''.h5''"
  shows "1 < length (split CHR ''.'' (basename p))
     \<and> date_str (basename p) = Inr (drop 1 (split CHR ''.'' (basename p) ! 1))
     \<and> date_str (basename ''A.h5'') = Inr ''5''"
proof -
  have "date_str (basename ''A.h5'') = Inr ''5''"
    by (simp add: date_str_def basename_def)
  with split_h5_fields [OF assms] date_str_h5 [OF assms] show ?thesis by simp
qed

theorem h5_path_has_date_field_witness:
  "endswith ''dir.v1/A.h5'' ''.h5''
   \<and> split CHR ''.'' (basename ''dir.v1/A.h5'') = [''A'', ''h5'']
   \<and> date_str (basename ''dir.v1/A.h5'') = Inr ''5''"
proof -
  have h: "endswith ''dir.v1/A.h5'' ''.h5''" by (simp add: endswith_def)
  from h5_path_has_date_field [OF h] h show ?thesis by (simp add: basename_def)
qed

end
